theory Spec2Isabelle
  imports Main
begin

section \<open>The data of \<^verbatim>\<open>yaml_config/config.py\<close>\<close>

text \<open>
  \<^verbatim>\<open>config.py\<close> is the facade of the library: the mixin \<^verbatim>\<open>YamlConfigMixin\<close> with
  \<^verbatim>\<open>dump\<close>, \<^verbatim>\<open>load\<close> and \<^verbatim>\<open>set_default\<close>, and the three root classes
  \<^verbatim>\<open>YamlConfig\<close>, \<^verbatim>\<open>CategoryYamlConfig\<close> and \<^verbatim>\<open>ListYamlConfig\<close>.

  Python objects are mutable and shared by reference, and \<^verbatim>\<open>set_default\<close> assigns to an
  attribute of an object that \<^verbatim>\<open>find\<close> returned. The model therefore keeps the objects in
  an explicit store: addresses stand for references, an attribute assignment is an update
  of the store at one address. Scalars are immutable in Python and are kept inline.
\<close>

type_synonym addr = nat

text \<open>The exceptions the module documents, and the one an attribute assignment can raise.\<close>

datatype error =
    IOError string
  | YAMLError string
  | ValueError string
  | RequiredError string
  | KeyError string
  | AttributeError string

text \<open>A Python value: an immutable scalar, or a reference to a dict, a list or an element.\<close>

datatype pyval = PNone | PBool bool | PInt int | PStr string | PRef addr

text \<open>
  The element classes that \<^verbatim>\<open>config.py\<close> imports from \<^verbatim>\<open>elements\<close> (the three
  containers), and scalar leaves.
\<close>

datatype elem_class =
    KeyedElem
  | CategoryElem
  | ListElem
  | StrElem
  | BoolElem
  | IntRangeElem "int option" "int option"

text \<open>
  The attributes of an element object. \<^verbatim>\<open>config.py\<close> reads and writes \<^verbatim>\<open>name\<close> and
  \<^verbatim>\<open>default\<close>, and passes \<^verbatim>\<open>elements\<close>, \<^verbatim>\<open>sub_elem\<close> and \<^verbatim>\<open>help_text\<close> to the
  constructors; \<^verbatim>\<open>required\<close> and \<^verbatim>\<open>choices\<close> are the remaining attributes of an element.
  Sub-elements are objects of their own, referred to by address.
\<close>

record elem =
  cls :: elem_class
  name :: "string option"
  default :: pyval
  required :: bool
  help_text :: string
  choices :: "pyval list option"
  elements :: "addr list"
  sub_elem :: "addr option"

datatype pyobj =
    ODict "(string \<times> pyval) list"
  | OList "pyval list"
  | OElem elem

type_synonym store = "addr \<Rightarrow> pyobj option"

text \<open>The events of the YAML library that \<^verbatim>\<open>dump\<close> builds or receives from \<^verbatim>\<open>yaml_events\<close>.\<close>

datatype event =
    StreamStartEvent
  | StreamEndEvent
  | DocumentStartEvent
  | DocumentEndEvent
  | MappingStartEvent
  | MappingEndEvent
  | SequenceStartEvent
  | SequenceEndEvent
  | ScalarEvent string
  | CommentEvent string

section \<open>\<^verbatim>\<open>YamlConfigMixin\<close>\<close>

text \<open>
  The mixin declares \<^verbatim>\<open>yaml_events\<close>, \<^verbatim>\<open>validate\<close> and \<^verbatim>\<open>find\<close> abstract: the
  co-inherited element class provides them. The YAML library (\<^verbatim>\<open>yaml.load\<close>,
  \<^verbatim>\<open>yaml.emit\<close>) is external. Each of them is an argument of the function that calls it,
  so every theorem below holds for whatever implementation is mixed in.

  A call that can raise returns \<open>Inl\<close> of the exception; a call that can change the store
  (or the output stream) returns the new one beside its result.
\<close>

definition HEADER :: string where
  "HEADER = ''''"

text \<open>
  \<^verbatim>\<open>raw_data = yaml.load(infile)\<close>, then \<^verbatim>\<open>return self.validate(raw_data)\<close>. Parsing
  allocates the raw tree, validation allocates the value tree.
\<close>

definition load ::
  "('i \<Rightarrow> store \<Rightarrow> (error + pyval) \<times> store) \<Rightarrow>
   (addr \<Rightarrow> pyval \<Rightarrow> store \<Rightarrow> (error + pyval) \<times> store) \<Rightarrow>
   addr \<Rightarrow> 'i \<Rightarrow> store \<Rightarrow> (error + pyval) \<times> store" where
  "load yaml_load validate self infile \<sigma> =
     (case yaml_load infile \<sigma> of
        (Inl e, \<sigma>1) \<Rightarrow> (Inl e, \<sigma>1)
      | (Inr raw_data, \<sigma>1) \<Rightarrow> validate self raw_data \<sigma>1)"

text \<open>
  \<^verbatim>\<open>dump(self, outfile, values=None, show_choices=True)\<close>: the list \<^verbatim>\<open>events\<close> is
  extended three times and handed to \<^verbatim>\<open>yaml.emit\<close> with the output stream. When
  \<^verbatim>\<open>yaml_events\<close> raises, the emitter is not reached and the stream is as it was.
\<close>

definition values_default :: pyval where
  "values_default = PNone"

definition show_choices_default :: bool where
  "show_choices_default = True"

definition dump ::
  "(event list \<Rightarrow> 'o \<Rightarrow> (error + unit) \<times> 'o) \<Rightarrow>
   (addr \<Rightarrow> pyval \<Rightarrow> bool \<Rightarrow> store \<Rightarrow> error + event list) \<Rightarrow>
   addr \<Rightarrow> 'o \<Rightarrow> pyval \<Rightarrow> bool \<Rightarrow> store \<Rightarrow> (error + unit) \<times> 'o" where
  "dump yaml_emit yaml_events self outfile values show_choices \<sigma> =
     (let events = [];
          events = events @ [StreamStartEvent, DocumentStartEvent]
      in case yaml_events self values show_choices \<sigma> of
           Inl e \<Rightarrow> (Inl e, outfile)
         | Inr evs \<Rightarrow>
             (let events = events @ evs;
                  events = events @ [DocumentEndEvent, StreamEndEvent]
              in yaml_emit events outfile))"

text \<open>
  The statement \<^verbatim>\<open>elem.default = value\<close>. How an element takes an assignment to
  \<^verbatim>\<open>default\<close> is decided by its class, in the module \<^verbatim>\<open>elements\<close>: a plain attribute
  stores the value as it is, a property can check or convert it first and raise. The
  argument \<open>on_assign\<close> stands for that: it gives the value that is stored, or the
  exception. The object at \<^verbatim>\<open>elem\<close> gets the new default, nothing else in the store
  changes; when \<open>on_assign\<close> raises, nothing changes at all.

  A dict or a list has no such attribute, and Python raises \<^verbatim>\<open>AttributeError\<close> for it
  (an address with no object does not occur in Python; it is given the same result).
\<close>

definition setattr_default ::
  "(addr \<Rightarrow> pyval \<Rightarrow> store \<Rightarrow> error + pyval) \<Rightarrow>
   addr \<Rightarrow> pyval \<Rightarrow> store \<Rightarrow> (error + unit) \<times> store" where
  "setattr_default on_assign elem value \<sigma> =
     (case \<sigma> elem of
        Some (OElem e) \<Rightarrow>
          (case on_assign elem value \<sigma> of
             Inl err \<Rightarrow> (Inl err, \<sigma>)
           | Inr stored \<Rightarrow> (Inr (), \<sigma>(elem \<mapsto> OElem (e\<lparr>default := stored\<rparr>))))
      | Some (ODict kvs) \<Rightarrow> (Inl (AttributeError ''default''), \<sigma>)
      | Some (OList vs) \<Rightarrow> (Inl (AttributeError ''default''), \<sigma>)
      | None \<Rightarrow> (Inl (AttributeError ''default''), \<sigma>))"

text \<open>
  Two ways to take the assignment: as a plain attribute, and through a check by the
  element's own \<^verbatim>\<open>validate\<close>, whose value tree is dropped.
\<close>

definition plain_attribute :: "addr \<Rightarrow> pyval \<Rightarrow> store \<Rightarrow> error + pyval" where
  "plain_attribute elem value \<sigma> = Inr value"

definition checked_attribute ::
  "(addr \<Rightarrow> pyval \<Rightarrow> store \<Rightarrow> (error + pyval) \<times> store) \<Rightarrow>
   addr \<Rightarrow> pyval \<Rightarrow> store \<Rightarrow> error + pyval" where
  "checked_attribute validate elem value \<sigma> =
     (case fst (validate elem value \<sigma>) of
        Inl err \<Rightarrow> Inl err
      | Inr checked \<Rightarrow> Inr value)"

text \<open>
  \<^verbatim>\<open>set_default(self, dotted_key, value)\<close> is two statements:
  \<^verbatim>\<open>elem = self.find(dotted_key)\<close> and \<^verbatim>\<open>elem.default = value\<close>. The abstract
  \<^verbatim>\<open>find\<close> is the argument \<open>find_method\<close>; it reads the store and returns a reference.
\<close>

definition set_default ::
  "(addr \<Rightarrow> string \<Rightarrow> store \<Rightarrow> error + addr) \<Rightarrow>
   (addr \<Rightarrow> pyval \<Rightarrow> store \<Rightarrow> error + pyval) \<Rightarrow>
   addr \<Rightarrow> string \<Rightarrow> pyval \<Rightarrow> store \<Rightarrow> (error + unit) \<times> store" where
  "set_default find_method on_assign self dotted_key value \<sigma> =
     (case find_method self dotted_key \<sigma> of
        Inl e \<Rightarrow> (Inl e, \<sigma>)
      | Inr elem \<Rightarrow> setattr_default on_assign elem value \<sigma>)"

section \<open>The three root classes\<close>

text \<open>
  Each constructor calls the constructor of its container class with two keyword
  arguments and no name, then executes \<^verbatim>\<open>self.name = '<root>'\<close>. The container's
  constructor lives in \<^verbatim>\<open>elements\<close>; it is the argument \<open>base_init\<close>, which may read the
  store (the sub-elements are objects) and may raise. The class variables
  \<^verbatim>\<open>ELEMENTS\<close>, \<^verbatim>\<open>BASE\<close> and \<^verbatim>\<open>HEADER\<close> are arguments too: a subclass overrides them,
  and the constants below are what a subclass inherits when it does not.
\<close>

definition setattr_name :: "string \<Rightarrow> elem \<Rightarrow> elem" where
  "setattr_name n self = self\<lparr>name := Some n\<rparr>"

definition YamlConfig_ELEMENTS :: "addr list" where
  "YamlConfig_ELEMENTS = []"



definition YamlConfig_init ::
  "(addr list \<Rightarrow> string \<Rightarrow> store \<Rightarrow> error + elem) \<Rightarrow>
   addr list \<Rightarrow> string \<Rightarrow> store \<Rightarrow> error + elem" where
  "YamlConfig_init base_init ELEMENTS header \<sigma> =
     (case base_init ELEMENTS header \<sigma> of
        Inl e \<Rightarrow> Inl e
      | Inr self \<Rightarrow> Inr (setattr_name ''<root>'' self))"

definition CategoryYamlConfig_init ::
  "(addr option \<Rightarrow> string \<Rightarrow> store \<Rightarrow> error + elem) \<Rightarrow>
   addr option \<Rightarrow> string \<Rightarrow> store \<Rightarrow> error + elem" where
  "CategoryYamlConfig_init base_init BASE header \<sigma> =
     (case base_init BASE header \<sigma> of
        Inl e \<Rightarrow> Inl e
      | Inr self \<Rightarrow> Inr (setattr_name ''<root>'' self))"

definition ListYamlConfig_init ::
  "(addr option \<Rightarrow> string \<Rightarrow> store \<Rightarrow> error + elem) \<Rightarrow>
   addr option \<Rightarrow> string \<Rightarrow> store \<Rightarrow> error + elem" where
  "ListYamlConfig_init base_init BASE header \<sigma> =
     (case base_init BASE header \<sigma> of
        Inl e \<Rightarrow> Inl e
      | Inr self \<Rightarrow> Inr (setattr_name ''<root>'' self))"

text \<open>\<^verbatim>\<open>class Bleh(YamlConfig): ELEMENTS = []\<close>.\<close>

definition Bleh_ELEMENTS :: "addr list" where
  "Bleh_ELEMENTS = []"

definition Bleh_init ::
  "(addr list \<Rightarrow> string \<Rightarrow> store \<Rightarrow> error + elem) \<Rightarrow> store \<Rightarrow> error + elem" where
  "Bleh_init base_init \<sigma> = YamlConfig_init base_init Bleh_ELEMENTS HEADER \<sigma>"

section \<open>What \<^verbatim>\<open>config.py\<close> uses from \<^verbatim>\<open>elements\<close>\<close>

text \<open>
  The element classes are defined in the module \<^verbatim>\<open>elements\<close>, outside
  \<^verbatim>\<open>config.py\<close>. The theorems on the facade take their methods as arguments; the
  definitions of this section give one implementation of them, following the
  specification, for the concrete instances.
\<close>

definition letters :: string where
  "letters = ''abcdefghijklmnopqrstuvwxyzABCDEFGHIJKLMNOPQRSTUVWXYZ''"

definition digits :: string where
  "digits = ''0123456789''"

text \<open>
  Modelled from the spec: the name check of the element constructor, which is missing.
  The spec calls a name an identifier: a letter, then letters, digits and underscores.
\<close>

definition valid_name :: "string \<Rightarrow> bool" where
  "valid_name n =
     (case n of
        [] \<Rightarrow> False
      | c # cs \<Rightarrow> c \<in> set letters \<and>
          list_all (\<lambda>d. d \<in> set letters \<or> d \<in> set digits \<or> d = CHR ''_'') cs)"

text \<open>
  Modelled from the spec: the constructor of the element base class, which is missing. An
  element has a name (checked when one is given), a default (absent), the required flag,
  a help text and a choice list; a keyed element owns a list of sub-elements, a category
  and a list element own one template.
\<close>

definition ConfigElement_init ::
  "elem_class \<Rightarrow> string option \<Rightarrow> string \<Rightarrow> addr list \<Rightarrow> addr option \<Rightarrow> error + elem" where
  "ConfigElement_init c nm h els sub =
     (if (case nm of None \<Rightarrow> True | Some n \<Rightarrow> valid_name n)
      then Inr \<lparr>cls = c, name = nm, default = PNone, required = False, help_text = h,
                choices = None, elements = els, sub_elem = sub\<rparr>
      else Inl (ValueError ''invalid element name''))"

text \<open>
  Modelled from the spec: the constructors of the three container classes, which are
  missing. A keyed element takes its list of sub-elements, a category and a list element
  their one template; the spec describes no check of either at construction.
\<close>

definition KeyedElem_init ::
  "string option \<Rightarrow> addr list \<Rightarrow> string \<Rightarrow> store \<Rightarrow> error + elem" where
  "KeyedElem_init nm els h \<sigma> = ConfigElement_init KeyedElem nm h els None"

definition CategoryElem_init ::
  "string option \<Rightarrow> addr option \<Rightarrow> string \<Rightarrow> store \<Rightarrow> error + elem" where
  "CategoryElem_init nm sub h \<sigma> = ConfigElement_init CategoryElem nm h [] sub"

definition ListElem_init ::
  "string option \<Rightarrow> addr option \<Rightarrow> string \<Rightarrow> store \<Rightarrow> error + elem" where
  "ListElem_init nm sub h \<sigma> = ConfigElement_init ListElem nm h [] sub"

text \<open>Python's \<^verbatim>\<open>dotted_key.split('.')\<close>.\<close>

fun split_dots :: "string \<Rightarrow> string list" where
  "split_dots [] = [[]]"
| "split_dots (c # cs) =
     (if c = CHR ''.'' then [] # split_dots cs
      else (case split_dots cs of
              [] \<Rightarrow> [[c]]
            | w # ws \<Rightarrow> (c # w) # ws))"

text \<open>The sub-element of a keyed element that carries a given name, if there is one.\<close>

fun find_child :: "store \<Rightarrow> string \<Rightarrow> addr list \<Rightarrow> addr option" where
  "find_child \<sigma> seg [] = None"
| "find_child \<sigma> seg (a # as) =
     (case \<sigma> a of
        Some (OElem e) \<Rightarrow> (if name e = Some seg then Some a else find_child \<sigma> seg as)
      | Some (ODict kvs) \<Rightarrow> find_child \<sigma> seg as
      | Some (OList vs) \<Rightarrow> find_child \<sigma> seg as
      | None \<Rightarrow> find_child \<sigma> seg as)"

text \<open>
  Modelled from the spec: the method \<^verbatim>\<open>find\<close> of the element classes, which is missing.
  Each segment of the path names a declared key of a keyed element, or stands for the one
  template of a category or list element; a segment that names no declared key, or that
  goes below a scalar, fails with \<^verbatim>\<open>KeyError\<close>.
\<close>

fun find_path :: "store \<Rightarrow> addr \<Rightarrow> string list \<Rightarrow> error + addr" where
  "find_path \<sigma> a [] = Inr a"
| "find_path \<sigma> a (seg # segs) =
     (case \<sigma> a of
        Some (OElem e) \<Rightarrow>
          (if cls e = KeyedElem then
             (case find_child \<sigma> seg (elements e) of
                Some c \<Rightarrow> find_path \<sigma> c segs
              | None \<Rightarrow> Inl (KeyError seg))
           else if cls e = CategoryElem \<or> cls e = ListElem then
             (case sub_elem e of
                Some c \<Rightarrow> find_path \<sigma> c segs
              | None \<Rightarrow> Inl (KeyError seg))
           else Inl (KeyError seg))
      | Some (ODict kvs) \<Rightarrow> Inl (KeyError seg)
      | Some (OList vs) \<Rightarrow> Inl (KeyError seg)
      | None \<Rightarrow> Inl (KeyError seg))"

definition find_elem :: "addr \<Rightarrow> string \<Rightarrow> store \<Rightarrow> error + addr" where
  "find_elem self dotted_key \<sigma> = find_path \<sigma> self (split_dots dotted_key)"

text \<open>
  Modelled from the spec: \<^verbatim>\<open>validate\<close> of a scalar element, which is missing. An absent
  node takes the default, unless the element is required and has none
  (\<^verbatim>\<open>RequiredError\<close>); a present node must pass the type check of the class and, when a
  choice list is set, be one of the choices (\<^verbatim>\<open>ValueError\<close> otherwise).
\<close>

definition type_check :: "elem_class \<Rightarrow> pyval \<Rightarrow> bool" where
  "type_check c v =
     (case c of
        StrElem \<Rightarrow> (case v of PStr s \<Rightarrow> True | _ \<Rightarrow> False)
      | BoolElem \<Rightarrow> (case v of PBool b \<Rightarrow> True | _ \<Rightarrow> False)
      | IntRangeElem vmin vmax \<Rightarrow>
          (case v of
             PInt i \<Rightarrow> (case vmin of None \<Rightarrow> True | Some lo \<Rightarrow> lo \<le> i) \<and>
                       (case vmax of None \<Rightarrow> True | Some hi \<Rightarrow> i \<le> hi)
           | _ \<Rightarrow> False)
      | _ \<Rightarrow> False)"

definition validate_scalar :: "elem \<Rightarrow> pyval \<Rightarrow> error + pyval" where
  "validate_scalar e raw =
     (if raw = PNone then
        (if required e \<and> default e = PNone then Inl (RequiredError ''missing value'')
         else Inr (default e))
      else if \<not> type_check (cls e) raw then Inl (ValueError ''invalid value'')
      else (case choices e of
              None \<Rightarrow> Inr raw
            | Some cs \<Rightarrow> if raw \<in> set cs then Inr raw
                         else Inl (ValueError ''not one of the choices'')))"

text \<open>The same as a method of an object in the store; it allocates nothing.\<close>

definition validate_method :: "addr \<Rightarrow> pyval \<Rightarrow> store \<Rightarrow> (error + pyval) \<times> store" where
  "validate_method self raw \<sigma> =
     (case \<sigma> self of
        Some (OElem e) \<Rightarrow> (validate_scalar e raw, \<sigma>)
      | Some (ODict kvs) \<Rightarrow> (Inl (AttributeError ''validate''), \<sigma>)
      | Some (OList vs) \<Rightarrow> (Inl (AttributeError ''validate''), \<sigma>)
      | None \<Rightarrow> (Inl (AttributeError ''validate''), \<sigma>))"

section \<open>Reading a value tree out of the store\<close>

text \<open>
  What a caller sees when it walks a value: the scalars, and below a reference the dict or
  list stored there, to any depth \<open>n\<close>. An element object is not part of a value tree.
\<close>

datatype tree =
    TNone
  | TBool bool
  | TInt int
  | TStr string
  | TDict "(string \<times> tree) list"
  | TList "tree list"

fun snapshot :: "nat \<Rightarrow> store \<Rightarrow> pyval \<Rightarrow> tree option" where
  "snapshot n \<sigma> PNone = Some TNone"
| "snapshot n \<sigma> (PBool b) = Some (TBool b)"
| "snapshot n \<sigma> (PInt i) = Some (TInt i)"
| "snapshot n \<sigma> (PStr s) = Some (TStr s)"
| "snapshot 0 \<sigma> (PRef a) = None"
| "snapshot (Suc n) \<sigma> (PRef a) =
     (case \<sigma> a of
        Some (ODict kvs) \<Rightarrow>
          map_option TDict
            (those (map (\<lambda>kv. map_option (Pair (fst kv)) (snapshot n \<sigma> (snd kv))) kvs))
      | Some (OList vs) \<Rightarrow> map_option TList (those (map (snapshot n \<sigma>) vs))
      | Some (OElem e) \<Rightarrow> None
      | None \<Rightarrow> None)"

section \<open>A concrete configuration\<close>

text \<open>
  The instances used below. The schema is a keyed root with one optional key, after the
  example in the docstring of \<^verbatim>\<open>YamlConfig\<close>:
  \<^verbatim>\<open>ELEMENTS = [IntRangeElem('age', vmin=1)]\<close>. The root object is at address 0, the
  element \<^verbatim>\<open>age\<close> at address 1.
\<close>

definition age_elem :: elem where
  "age_elem = \<lparr>cls = IntRangeElem (Some 1) None, name = Some ''age'', default = PNone,
               required = False, help_text = '''', choices = None, elements = [],
               sub_elem = None\<rparr>"

definition root_elem :: elem where
  "root_elem = \<lparr>cls = KeyedElem, name = Some ''<root>'', default = PNone,
                required = False, help_text = '''', choices = None, elements = [1],
                sub_elem = None\<rparr>"

definition example_store :: store where
  "example_store = [0 \<mapsto> OElem root_elem, 1 \<mapsto> OElem age_elem]"

text \<open>The object a \<^verbatim>\<open>YamlConfig\<close> subclass with the inherited class variables constructs.\<close>

definition empty_root :: elem where
  "empty_root = \<lparr>cls = KeyedElem, name = Some ''<root>'', default = PNone,
                 required = False, help_text = '''', choices = None, elements = [],
                 sub_elem = None\<rparr>"

text \<open>
  A parser for the instances: it reads two scalar documents and rejects every other
  input as malformed.
\<close>

definition example_yaml_load :: "string \<Rightarrow> store \<Rightarrow> (error + pyval) \<times> store" where
  "example_yaml_load infile \<sigma> =
     (if infile = ''59'' then (Inr (PInt 59), \<sigma>)
      else if infile = ''0'' then (Inr (PInt 0), \<sigma>)
      else (Inl (YAMLError ''could not parse the document''), \<sigma>))"

text \<open>An emitter that records each call: the output stream is the list of the calls made.\<close>

definition example_emit ::
  "event list \<Rightarrow> event list list \<Rightarrow> (error + unit) \<times> event list list" where
  "example_emit events outfile = (Inr (), outfile @ [events])"

text \<open>A renderer for the instances: the mapping with the one key, its value as given.\<close>

definition example_yaml_events ::
  "addr \<Rightarrow> pyval \<Rightarrow> bool \<Rightarrow> store \<Rightarrow> error + event list" where
  "example_yaml_events self values show_choices \<sigma> =
     Inr [MappingStartEvent, ScalarEvent ''age'',
          (case values of PInt i \<Rightarrow> ScalarEvent ''given'' | _ \<Rightarrow> ScalarEvent ''default''),
          MappingEndEvent]"

section \<open>Auxiliary facts\<close>

text \<open>
  Replacing an element object by another element object changes no value tree: a walk
  stops at an element, before and after.
\<close>

lemma snapshot_update_elem:
  assumes "\<sigma> a = Some (OElem e)"
  shows "snapshot n (\<sigma>(a \<mapsto> OElem e')) t = snapshot n \<sigma> t"
proof (induction n arbitrary: t)
  case 0
  show ?case by (cases t) simp_all
next
  case (Suc n)
  have eq: "snapshot n (\<sigma>(a \<mapsto> OElem e')) = snapshot n \<sigma>"
    by (rule ext) (rule Suc.IH)
  show ?case
  proof (cases t)
    case (PRef b)
    show ?thesis
    proof (cases "b = a")
      case True
      with PRef assms show ?thesis by simp
    next
      case False
      then have "(\<sigma>(a \<mapsto> OElem e')) b = \<sigma> b" by simp
      with PRef show ?thesis by (simp only: snapshot.simps eq)
    qed
  qed simp_all
qed

text \<open>Assigning a default changes the name of no element.\<close>

lemma setattr_default_name:
  "\<sigma> a = Some (OElem e) \<Longrightarrow>
   \<exists>e'. snd (setattr_default on_assign b value \<sigma>) a = Some (OElem e') \<and> name e' = name e"
  by (cases "b = a")
     (auto simp: setattr_default_def split: option.splits pyobj.splits sum.splits)

lemmas example_defs = age_elem_def root_elem_def example_store_def

section \<open>\<^verbatim>\<open>load\<close>\<close>

text \<open>
  Claim C2. For every input stream, \<^verbatim>\<open>load\<close> is the parser followed by the root's
  \<^verbatim>\<open>validate\<close>: where the parser raises, so does \<^verbatim>\<open>load\<close>, with the same exception and
  the store the parser left; where the parser returns the raw tree, the result of
  \<^verbatim>\<open>load\<close> (value or exception, and the store) is exactly that of \<^verbatim>\<open>validate\<close> on this
  tree, in the store the parser left. Nothing is done to the tree in between.
\<close>

theorem load_parse_then_validate:
  "load yaml_load validate self infile \<sigma> =
     (case yaml_load infile \<sigma> of
        (Inl e, \<sigma>1) \<Rightarrow> (Inl e, \<sigma>1)
      | (Inr raw_data, \<sigma>1) \<Rightarrow> validate self raw_data \<sigma>1)"
  by (simp add: load_def)

text \<open>
  Claim C3. \<^verbatim>\<open>load\<close> passes every failure on unchanged: an exception of the parser (a
  read or a format failure) is the result of \<^verbatim>\<open>load\<close>, an exception of \<^verbatim>\<open>validate\<close>
  is the result of \<^verbatim>\<open>load\<close>, and \<^verbatim>\<open>load\<close> raises nothing that one of the two did not
  raise.
\<close>

theorem load_propagates_errors:
  "(yaml_load infile \<sigma> = (Inl e, \<sigma>1) \<longrightarrow>
      load yaml_load validate self infile \<sigma> = (Inl e, \<sigma>1)) \<and>
   (yaml_load infile \<sigma> = (Inr raw_data, \<sigma>1) \<and> validate self raw_data \<sigma>1 = (Inl e, \<sigma>2) \<longrightarrow>
      load yaml_load validate self infile \<sigma> = (Inl e, \<sigma>2)) \<and>
   (fst (load yaml_load validate self infile \<sigma>) = Inl e \<longrightarrow>
      fst (yaml_load infile \<sigma>) = Inl e \<or>
      (\<exists>raw \<sigma>'. yaml_load infile \<sigma> = (Inr raw, \<sigma>') \<and> fst (validate self raw \<sigma>') = Inl e))"
  by (auto simp: load_def split: prod.splits sum.splits)

theorem load_propagates_errors_witness:
  "(example_yaml_load ''age: 59'' example_store =
      (Inl (YAMLError ''could not parse the document''), example_store) \<and>
    load example_yaml_load validate_method 1 ''age: 59'' example_store =
      (Inl (YAMLError ''could not parse the document''), example_store)) \<and>
   (example_yaml_load ''0'' example_store = (Inr (PInt 0), example_store) \<and>
    validate_method 1 (PInt 0) example_store = (Inl (ValueError ''invalid value''), example_store) \<and>
    load example_yaml_load validate_method 1 ''0'' example_store =
      (Inl (ValueError ''invalid value''), example_store))"
proof -
  have p: "example_yaml_load ''age: 59'' example_store =
      (Inl (YAMLError ''could not parse the document''), example_store)"
    by (simp add: example_yaml_load_def)
  have q: "example_yaml_load ''0'' example_store = (Inr (PInt 0), example_store)"
    by (simp add: example_yaml_load_def)
  have v: "validate_method 1 (PInt 0) example_store =
      (Inl (ValueError ''invalid value''), example_store)"
    by (simp add: validate_method_def validate_scalar_def type_check_def example_defs)
  from p load_propagates_errors [of example_yaml_load "''age: 59''" example_store
      "YAMLError ''could not parse the document''" example_store validate_method 1]
  have a: "load example_yaml_load validate_method 1 ''age: 59'' example_store =
      (Inl (YAMLError ''could not parse the document''), example_store)"
    by blast
  from q v load_propagates_errors [of example_yaml_load "''0''" example_store
      "ValueError ''invalid value''" example_store validate_method 1 "PInt 0" example_store]
  have b: "load example_yaml_load validate_method 1 ''0'' example_store =
      (Inl (ValueError ''invalid value''), example_store)"
    by blast
  from p q v a b show ?thesis by simp
qed

section \<open>\<^verbatim>\<open>dump\<close>\<close>

text \<open>
  Claim C4. When the root renders \<^verbatim>\<open>values\<close> into the events \<open>evs\<close>, \<^verbatim>\<open>dump\<close> is one
  call of the emitter on the output stream, with the sequence start of stream, start of
  document, \<open>evs\<close>, end of document, end of stream. The values and the flag reach
  \<^verbatim>\<open>yaml_events\<close> as given (\<^verbatim>\<open>None\<close> when the caller gave none). The emitter is arbitrary,
  so the equation holds for one that counts its calls.
\<close>

theorem dump_event_sequence:
  "yaml_events self values show_choices \<sigma> = Inr evs \<Longrightarrow>
   dump yaml_emit yaml_events self outfile values show_choices \<sigma> =
     yaml_emit ([StreamStartEvent, DocumentStartEvent] @ evs @
                [DocumentEndEvent, StreamEndEvent]) outfile"
  by (simp add: dump_def)

theorem dump_event_sequence_witness:
  "example_yaml_events 0 values_default show_choices_default example_store =
     Inr [MappingStartEvent, ScalarEvent ''age'', ScalarEvent ''default'', MappingEndEvent] \<and>
   dump example_emit example_yaml_events 0 [] values_default show_choices_default example_store =
     (Inr (), [[StreamStartEvent, DocumentStartEvent,
                MappingStartEvent, ScalarEvent ''age'', ScalarEvent ''default'', MappingEndEvent,
                DocumentEndEvent, StreamEndEvent]])"
proof -
  have h: "example_yaml_events 0 values_default show_choices_default example_store =
     Inr [MappingStartEvent, ScalarEvent ''age'', ScalarEvent ''default'', MappingEndEvent]"
    by (simp add: example_yaml_events_def values_default_def)
  show ?thesis
    using h dump_event_sequence [of example_yaml_events 0 values_default
        show_choices_default example_store _ example_emit "[]"]
    by (simp add: example_emit_def)
qed

section \<open>\<^verbatim>\<open>set_default\<close>\<close>

text \<open>
  Claim C1 speaks of a validation of the value. The body of \<^verbatim>\<open>set_default\<close> calls none:
  what happens to the value is decided by the way the element takes the assignment. The
  two lemmas run \<^verbatim>\<open>set_default('age', 0)\<close> on the schema with
  \<^verbatim>\<open>IntRangeElem('age', vmin=1)\<close>, where 0 is out of range. With a plain attribute the
  call returns normally and 0 is the new default; with an assignment checked by the
  element's \<^verbatim>\<open>validate\<close> the call raises \<^verbatim>\<open>ValueError\<close> and the store is as it was.
\<close>

lemma set_default_plain_attribute:
  "fst (validate_method 1 (PInt 0) example_store) = Inl (ValueError ''invalid value'') \<and>
   set_default find_elem plain_attribute 0 ''age'' (PInt 0) example_store =
     (Inr (), example_store(1 \<mapsto> OElem (age_elem\<lparr>default := PInt 0\<rparr>)))"
  by (simp add: set_default_def setattr_default_def plain_attribute_def find_elem_def
      validate_method_def validate_scalar_def type_check_def example_defs)

lemma set_default_checked_attribute:
  "set_default find_elem (checked_attribute validate_method) 0 ''age'' (PInt 0) example_store =
     (Inl (ValueError ''invalid value''), example_store)"
  by (simp add: set_default_def setattr_default_def checked_attribute_def find_elem_def
      validate_method_def validate_scalar_def type_check_def example_defs)

text \<open>
  Claim C8. \<^verbatim>\<open>set_default\<close> alters no value tree: whatever a value showed before the
  call, to any depth, it shows after it. This covers every value that an earlier
  \<^verbatim>\<open>load\<close> returned, also one that shares objects with the old or the new default. What
  an earlier \<^verbatim>\<open>dump\<close> wrote is in the output stream, which \<^verbatim>\<open>set_default\<close> neither
  receives nor returns.
\<close>

theorem set_default_keeps_value_trees:
  "snapshot n (snd (set_default find_method on_assign self dotted_key value \<sigma>)) t =
   snapshot n \<sigma> t"
  by (auto simp: set_default_def setattr_default_def snapshot_update_elem
      split: sum.splits option.splits pyobj.splits)

text \<open>
  Claim C9. When \<^verbatim>\<open>find\<close> raises \<^verbatim>\<open>KeyError\<close> for the dotted key, \<^verbatim>\<open>set_default\<close>
  raises this \<^verbatim>\<open>KeyError\<close> and the store, hence every default of the schema, is as it
  was.
\<close>

theorem set_default_bad_path:
  "find_method self dotted_key \<sigma> = Inl (KeyError m) \<Longrightarrow>
   set_default find_method on_assign self dotted_key value \<sigma> = (Inl (KeyError m), \<sigma>)"
  by (simp add: set_default_def)

theorem set_default_bad_path_witness:
  "find_elem 0 ''pie.fruit'' example_store = Inl (KeyError ''pie'') \<and>
   set_default find_elem plain_attribute 0 ''pie.fruit'' (PStr ''apple'') example_store =
     (Inl (KeyError ''pie''), example_store)"
proof -
  have h: "find_elem 0 ''pie.fruit'' example_store = Inl (KeyError ''pie'')"
    by (simp add: find_elem_def example_defs)
  show ?thesis
    using h set_default_bad_path [of find_elem 0 "''pie.fruit''" example_store "''pie''"
        plain_attribute "PStr ''apple''"]
    by simp
qed

section \<open>The constructors\<close>

text \<open>
  Claim C5, as stated. The claim is that after construction the name is \<^verbatim>\<open><root>\<close>, that
  this bypasses the name check of the container, and that the name cannot be changed
  afterwards. The last part fails: \<^verbatim>\<open>name\<close> is an attribute like any other, and the
  assignment the constructor itself uses renames a constructed root.
\<close>

theorem root_name_rename_counterexample:
  "YamlConfig_init (KeyedElem_init None) YamlConfig_ELEMENTS HEADER Map.empty = Inr empty_root \<and>
   name empty_root = Some ''<root>'' \<and>
   name (setattr_name ''config'' empty_root) \<noteq> Some ''<root>''"
  by (simp add: YamlConfig_init_def KeyedElem_init_def ConfigElement_init_def
      YamlConfig_ELEMENTS_def HEADER_def setattr_name_def empty_root_def)

text \<open>
  Claim C5, amended. For each of the three root classes, when the constructor of the
  container succeeds, the constructed object is the container's with the name
  \<^verbatim>\<open><root>\<close>: the container's constructor is called without a name, so its name check
  never sees the sentinel, which is assigned afterwards. \<^verbatim>\<open>set_default\<close>, the one
  operation of the facade that writes to an element, changes the name of no element. A
  later assignment to the attribute is not prevented.
\<close>

theorem root_name_sentinel:
  "(keyed_init ELEMENTS header \<sigma> = Inr e \<longrightarrow>
      YamlConfig_init keyed_init ELEMENTS header \<sigma> = Inr (e\<lparr>name := Some ''<root>''\<rparr>)) \<and>
   (category_init BASE header \<sigma> = Inr e \<longrightarrow>
      CategoryYamlConfig_init category_init BASE header \<sigma> = Inr (e\<lparr>name := Some ''<root>''\<rparr>)) \<and>
   (list_init BASE header \<sigma> = Inr e \<longrightarrow>
      ListYamlConfig_init list_init BASE header \<sigma> = Inr (e\<lparr>name := Some ''<root>''\<rparr>)) \<and>
   (\<sigma> a = Some (OElem e) \<longrightarrow>
      (\<exists>e'. snd (set_default find_method on_assign self dotted_key value \<sigma>) a =
              Some (OElem e') \<and>
            name e' = name e))"
proof -
  have "\<sigma> a = Some (OElem e) \<Longrightarrow>
      \<exists>e'. snd (set_default find_method on_assign self dotted_key value \<sigma>) a =
             Some (OElem e') \<and>
           name e' = name e"
    by (cases "find_method self dotted_key \<sigma>")
       (simp_all add: set_default_def setattr_default_name)
  then show ?thesis
    by (simp add: YamlConfig_init_def CategoryYamlConfig_init_def ListYamlConfig_init_def
        setattr_name_def)
qed

theorem root_name_sentinel_witness:
  "KeyedElem_init (Some ''<root>'') [1] HEADER example_store =
     Inl (ValueError ''invalid element name'') \<and>
   KeyedElem_init None [1] HEADER example_store = Inr (root_elem\<lparr>name := None\<rparr>) \<and>
   YamlConfig_init (KeyedElem_init None) [1] HEADER example_store = Inr root_elem \<and>
   CategoryElem_init None (Some 1) HEADER example_store =
     Inr (root_elem\<lparr>cls := CategoryElem, name := None, elements := [], sub_elem := Some 1\<rparr>) \<and>
   CategoryYamlConfig_init (CategoryElem_init None) (Some 1) HEADER example_store =
     Inr (root_elem\<lparr>cls := CategoryElem, elements := [], sub_elem := Some 1\<rparr>) \<and>
   ListElem_init None (Some 1) HEADER example_store =
     Inr (root_elem\<lparr>cls := ListElem, name := None, elements := [], sub_elem := Some 1\<rparr>) \<and>
   ListYamlConfig_init (ListElem_init None) (Some 1) HEADER example_store =
     Inr (root_elem\<lparr>cls := ListElem, elements := [], sub_elem := Some 1\<rparr>) \<and>
   example_store 0 = Some (OElem root_elem) \<and>
   snd (set_default find_elem plain_attribute 0 ''age'' (PInt 30) example_store) 0 =
     Some (OElem root_elem)"
proof -
  have k: "KeyedElem_init None [1] HEADER example_store = Inr (root_elem\<lparr>name := None\<rparr>)"
    by (simp add: KeyedElem_init_def ConfigElement_init_def HEADER_def root_elem_def)
  have c: "CategoryElem_init None (Some 1) HEADER example_store =
     Inr (root_elem\<lparr>cls := CategoryElem, name := None, elements := [], sub_elem := Some 1\<rparr>)"
    by (simp add: CategoryElem_init_def ConfigElement_init_def HEADER_def root_elem_def)
  have l: "ListElem_init None (Some 1) HEADER example_store =
     Inr (root_elem\<lparr>cls := ListElem, name := None, elements := [], sub_elem := Some 1\<rparr>)"
    by (simp add: ListElem_init_def ConfigElement_init_def HEADER_def root_elem_def)
  have s: "example_store 0 = Some (OElem root_elem)"
    by (simp add: example_store_def)
  have r: "KeyedElem_init (Some ''<root>'') [1] HEADER example_store =
     Inl (ValueError ''invalid element name'')"
    by (simp add: KeyedElem_init_def ConfigElement_init_def valid_name_def letters_def)
  have d: "snd (set_default find_elem plain_attribute 0 ''age'' (PInt 30) example_store) 0 =
     Some (OElem root_elem)"
    by (simp add: set_default_def find_elem_def setattr_default_def plain_attribute_def
        example_defs)
  show ?thesis
    using k c l s r d
      root_name_sentinel [of "KeyedElem_init None" "[1]" HEADER example_store
        "root_elem\<lparr>name := None\<rparr>"]
      root_name_sentinel [of _ _ HEADER example_store
        "root_elem\<lparr>cls := CategoryElem, name := None, elements := [], sub_elem := Some 1\<rparr>"
        "CategoryElem_init None" "Some 1"]
      root_name_sentinel [of _ _ HEADER example_store
        "root_elem\<lparr>cls := ListElem, name := None, elements := [], sub_elem := Some 1\<rparr>"
        _ _ "ListElem_init None" ]
    by (simp add: root_elem_def)
qed


text \<open>The subclass \<^verbatim>\<open>Bleh\<close> of the module constructs the same empty keyed root.\<close>

lemma Bleh_constructs_empty_root:
  "Bleh_init (KeyedElem_init None) \<sigma> = Inr empty_root"
  by (simp add: Bleh_init_def Bleh_ELEMENTS_def YamlConfig_init_def KeyedElem_init_def
      ConfigElement_init_def HEADER_def setattr_name_def empty_root_def)

end
